theory Spec2Isabelle
  imports Main
begin

section \<open>The first isMultiline pass of the Power Query formatter\<close>

text \<open>
  A shallow embedding of \<^verbatim>\<open>packages/format/src/format/passes/isMultiline/isMultilineFirstPass.ts\<close>.
  The pass visits every node of a parsed Power Query document, children before parents,
  and stores for each node whether the printer has to lay it out on several lines.

  The syntax tree itself comes from the parser package. The embedding gives every node
  kind its token range and the fields that \<^verbatim>\<open>visitNode\<close> reads, under the names the
  source uses for them.
\<close>

subsection \<open>Token ranges and leaves\<close>

text \<open>
  Every table of the pass is keyed by \<^verbatim>\<open>node.tokenRange.hash\<close>, a string. The other
  components of a token range are never read here.
\<close>

record tokenRange =
  hash :: string

record inode =
  tokenRange :: tokenRange

text \<open>
  Constants, identifiers and generalized identifiers are leaves that carry their text
  as \<^verbatim>\<open>literal\<close>.
\<close>

record terminal = inode +
  literal :: string

text \<open>
  An identifier expression is an identifier with an optional \<^verbatim>\<open>@\<close> in front
  (\<^verbatim>\<open>maybeInclusiveConstant\<close>). The invoke rule reads both fields of the head of a call.
\<close>

record identifierExpression = inode +
  maybeInclusiveConstant :: "terminal option"
  "identifier" :: terminal

subsection \<open>Node kinds\<close>

text \<open>
  Node kinds that share one case of the switch in \<^verbatim>\<open>visitNode\<close> share one constructor
  of the tree below; the kind is kept as its first argument.
\<close>

datatype pairedConstantKind =
    AsNullablePrimitiveType
  | AsType
  | EachExpression
  | ErrorRaisingExpression
  | NullablePrimitiveType
  | NullableType
  | OtherwiseExpression
  | TypePrimaryType

datatype binOpExpressionKind =
    ArithmeticExpression
  | EqualityExpression
  | LogicalExpression
  | RelationalExpression

datatype binOpKeywordKind =
    IsExpression
  | AsExpression
  | MetadataExpression

datatype keyValuePairKind =
    GeneralizedIdentifierPairedAnyLiteral
  | GeneralizedIdentifierPairedExpression
  | IdentifierExpressionPairedExpression
  | IdentifierPairedExpression

datatype listOrRecordKind =
    ListExpression
  | ListLiteral
  | RecordExpression
  | RecordLiteral

text \<open>
  \<^verbatim>\<open>Ast.LiteralKind\<close>. The rule for literals asks for \<^verbatim>\<open>Str\<close> only; the other kinds carry
  a suffix where their names are taken by the node kinds above.
\<close>

datatype literalKind =
    LogicalLiteral
  | NullLiteral
  | NumericLiteral
  | Str
  | RecordLiteralKind
  | ListLiteralKind

subsection \<open>The syntax tree\<close>

text \<open>
  The arguments of each constructor, in order (after the kind, where there is one, and
  the token range):
  \<^item> \<open>TPairedConstant\<close>: constant, paired
  \<^item> \<open>TBinOpExpression\<close>: first, rest
  \<^item> \<open>TBinOpKeyword\<close>: left, constant, right
  \<^item> \<open>TKeyValuePair\<close>: key, equalConstant, value
  \<^item> \<open>TListOrRecord\<close>: openWrapperConstant, closeWrapperConstant, content
  \<^item> \<open>ErrorHandlingExpression\<close>: tryConstant, protectedExpression, maybeOtherwiseExpression
  \<^item> \<open>FieldProjection\<close>: openWrapperConstant, closeWrapperConstant, maybeOptionalConstant, content
  \<^item> \<open>FieldSelector\<close>: openWrapperConstant, content, closeWrapperConstant, maybeOptionalConstant
  \<^item> \<open>FieldSpecification\<close>: maybeOptionalConstant, name, maybeFieldTypeSpeification
  \<^item> \<open>FieldSpecificationList\<close>: content, maybeOpenRecordMarkerConstant
  \<^item> \<open>FieldTypeSpecification\<close>: equalConstant, fieldType
  \<^item> \<open>FunctionExpression\<close>: expression
  \<^item> \<open>IfExpression\<close>: condition, trueExpression, falseExpression
  \<^item> \<open>InvokeExpression\<close>: openWrapperConstant, closeWrapperConstant, content
  \<^item> \<open>ItemAccessExpression\<close>: maybeOptionalConstant, content, closeWrapperConstant
  \<^item> \<open>LetExpression\<close>: variableList, expression
  \<^item> \<open>LiteralExpression\<close>: literalKind, literal
  \<^item> \<open>ListType\<close>, \<open>ParenthesizedExpression\<close>: openWrapperConstant, content, closeWrapperConstant
  \<^item> \<open>PrimitiveType\<close>: primitiveType
  \<^item> \<open>RecordType\<close>: fields
  \<^item> \<open>RecursivePrimaryExpression\<close>: head, recursiveExpressions
  \<^item> \<open>Section\<close>: maybeLiteralAttributes, sectionConstant, maybeName, semicolonConstant,
    sectionMembers
  \<^item> \<open>SectionMember\<close>: maybeLiteralAttributes, maybeSharedConstant, namePairedExpression,
    semicolonConstant
  \<^item> \<open>TableType\<close>: tableConstant, rowType
  \<^item> \<open>UnaryExpression\<close>: expressions
  \<^item> \<open>Csv\<close>: node, maybeCommaConstant
  \<^item> \<open>UnaryExpressionHelper\<close>: operatorConstant, node

  Fields the pass never reads (the keywords of an \<^verbatim>\<open>if\<close> or a \<^verbatim>\<open>let\<close>, the parameters
  of a function, what is inside a parameter list) are left out.

  A \<^verbatim>\<open>Csv\<close> and a \<^verbatim>\<open>UnaryExpressionHelper\<close> are nodes of their own (the switch has a
  case for each), and the source also reads them through typed arrays
  (\<^verbatim>\<open>ReadonlyArray<Ast.TCsv>\<close>, \<^verbatim>\<open>ReadonlyArray<Ast.TUnaryExpressionHelper>\<close>). They are
  types of their own here; \<open>CsvNode\<close> and \<open>UnaryExpressionHelperNode\<close> are the upcasts to
  \<^verbatim>\<open>Ast.TNode\<close>.
\<close>

datatype node =
    TPairedConstant pairedConstantKind tokenRange terminal node
  | TBinOpExpression binOpExpressionKind tokenRange node "unaryExpressionHelper list"
  | TBinOpKeyword binOpKeywordKind tokenRange node terminal node
  | TKeyValuePair keyValuePairKind tokenRange node terminal node
  | TListOrRecord listOrRecordKind tokenRange terminal terminal "csv list"
  | CsvNode csv
  | ErrorHandlingExpression tokenRange terminal node "node option"
  | FieldProjection tokenRange terminal terminal "terminal option" "node list"
  | FieldSelector tokenRange terminal node terminal "terminal option"
  | FieldSpecification tokenRange "terminal option" node "node option"
  | FieldSpecificationList tokenRange "csv list" "terminal option"
  | FieldTypeSpecification tokenRange terminal node
  | FunctionExpression tokenRange node
  | IdentifierExpression identifierExpression
  | IfExpression tokenRange node node node
  | InvokeExpression tokenRange terminal terminal "csv list"
  | ItemAccessExpression tokenRange "terminal option" node terminal
  | LetExpression tokenRange "csv list" node
  | LiteralExpression tokenRange literalKind string
  | ListType tokenRange terminal node terminal
  | ParenthesizedExpression tokenRange terminal node terminal
  | PrimitiveType tokenRange terminal
  | RecordType tokenRange node
  | RecursivePrimaryExpression tokenRange node "node list"
  | Section tokenRange "node option" terminal "node option" terminal "node list"
  | SectionMember tokenRange "node option" "terminal option" node terminal
  | TableType tokenRange terminal node
  | UnaryExpression tokenRange "unaryExpressionHelper list"
  | UnaryExpressionHelperNode unaryExpressionHelper
  | Constant terminal
  | FunctionType tokenRange
  | GeneralizedIdentifier terminal
  | Identifier terminal
  | NotImplementedExpression tokenRange
  | Parameter tokenRange
  | ParameterList tokenRange
and csv = Csv tokenRange node "terminal option"
and unaryExpressionHelper = UnaryExpressionHelper tokenRange terminal node

fun csvTokenRange :: "csv \<Rightarrow> tokenRange" where
  "csvTokenRange (Csv tr n maybeCommaConstant) = tr"

fun csvNode :: "csv \<Rightarrow> node" where
  "csvNode (Csv tr n maybeCommaConstant) = n"

fun helperTokenRange :: "unaryExpressionHelper \<Rightarrow> tokenRange" where
  "helperTokenRange (UnaryExpressionHelper tr operatorConstant n) = tr"

fun helperNode :: "unaryExpressionHelper \<Rightarrow> node" where
  "helperNode (UnaryExpressionHelper tr operatorConstant n) = n"

text \<open>\<^verbatim>\<open>node.tokenRange\<close>, for every kind of node.\<close>

fun tokenRangeOf :: "node \<Rightarrow> tokenRange" where
  "tokenRangeOf (TPairedConstant k tr c p) = tr"
| "tokenRangeOf (TBinOpExpression k tr f r) = tr"
| "tokenRangeOf (TBinOpKeyword k tr l c r) = tr"
| "tokenRangeOf (TKeyValuePair k tr key c v) = tr"
| "tokenRangeOf (TListOrRecord k tr ow cw content) = tr"
| "tokenRangeOf (CsvNode c) = csvTokenRange c"
| "tokenRangeOf (ErrorHandlingExpression tr c p ow) = tr"
| "tokenRangeOf (FieldProjection tr ow cw opt content) = tr"
| "tokenRangeOf (FieldSelector tr ow content cw opt) = tr"
| "tokenRangeOf (FieldSpecification tr opt name ft) = tr"
| "tokenRangeOf (FieldSpecificationList tr content marker) = tr"
| "tokenRangeOf (FieldTypeSpecification tr c ft) = tr"
| "tokenRangeOf (FunctionExpression tr e) = tr"
| "tokenRangeOf (IdentifierExpression ie) = tokenRange ie"
| "tokenRangeOf (IfExpression tr c t e) = tr"
| "tokenRangeOf (InvokeExpression tr ow cw content) = tr"
| "tokenRangeOf (ItemAccessExpression tr opt content cw) = tr"
| "tokenRangeOf (LetExpression tr vs e) = tr"
| "tokenRangeOf (LiteralExpression tr k l) = tr"
| "tokenRangeOf (ListType tr ow content cw) = tr"
| "tokenRangeOf (ParenthesizedExpression tr ow content cw) = tr"
| "tokenRangeOf (PrimitiveType tr p) = tr"
| "tokenRangeOf (RecordType tr fs) = tr"
| "tokenRangeOf (RecursivePrimaryExpression tr h rs) = tr"
| "tokenRangeOf (Section tr attrs c name semi members) = tr"
| "tokenRangeOf (SectionMember tr attrs shared pair semi) = tr"
| "tokenRangeOf (TableType tr c rowType) = tr"
| "tokenRangeOf (UnaryExpression tr es) = tr"
| "tokenRangeOf (UnaryExpressionHelperNode h) = helperTokenRange h"
| "tokenRangeOf (Constant c) = tokenRange c"
| "tokenRangeOf (FunctionType tr) = tr"
| "tokenRangeOf (GeneralizedIdentifier g) = tokenRange g"
| "tokenRangeOf (Identifier i) = tokenRange i"
| "tokenRangeOf (NotImplementedExpression tr) = tr"
| "tokenRangeOf (Parameter tr) = tr"
| "tokenRangeOf (ParameterList tr) = tr"

subsection \<open>The state of the traversal\<close>

text \<open>
  \<^verbatim>\<open>CommentCollection\<close> is declared in \<^verbatim>\<open>../comment\<close>; the pass reads one field of it.
\<close>

record commentCollection =
  prefixedCommentsContainsNewline :: bool

type_synonym isMultilineMap = "string \<rightharpoonup> bool"
type_synonym commentCollectionMap = "string \<rightharpoonup> commentCollection"
type_synonym parentMap = "string \<rightharpoonup> node"
type_synonym linearLengthMap = "string \<rightharpoonup> nat"

text \<open>
  \<^verbatim>\<open>State\<close>: the map under construction (\<^verbatim>\<open>result\<close>) and the three tables the pass is
  given. \<^verbatim>\<open>visitNode\<close> is the only writer of \<^verbatim>\<open>result\<close>.
\<close>

record state =
  result :: isMultilineMap
  commentCollectionMap :: commentCollectionMap
  parentMap :: parentMap
  linearLengthMap :: linearLengthMap

text \<open>
  Two functions the pass calls are not part of it: \<^verbatim>\<open>getLinearLength\<close> (the linear
  length pass, \<^verbatim>\<open>./linearLength\<close>) and \<^verbatim>\<open>StringHelpers.containsNewline\<close> (the parser
  package). Both are parameters of the embedding, so every theorem below holds for
  whatever they compute. \<^verbatim>\<open>getLinearLength\<close> gets the node and the cache of the state,
  as in the source; the entries it may add to that cache are not modelled, since the
  pass never reads the cache itself.
\<close>

record externals =
  getLinearLength :: "node \<Rightarrow> linearLengthMap \<Rightarrow> nat"
  containsNewline :: "string \<Rightarrow> bool"

subsection \<open>Errors\<close>

text \<open>
  \<^verbatim>\<open>CommonError.InvariantError\<close> carries a message and a \<^verbatim>\<open>details\<close> object. The
  details of the error thrown by \<^verbatim>\<open>visitNode\<close> are \<^verbatim>\<open>{ node, maybeParent }\<close>. The details
  of the error in \<^verbatim>\<open>maybeGetInvokeExpressionIdentifier\<close> are \<^verbatim>\<open>{ node, parent }\<close>, where
  \<^verbatim>\<open>parent\<close> is no variable of the function (it is the ambient global of that name), so
  that only the node is information about the tree.
\<close>

datatype details =
    NodeAndMaybeParent node "node option"
  | NodeAndAmbientParent node

datatype error = InvariantError string details

subsection \<open>Constants of the pass\<close>

definition InvokeExpressionIdentifierLinearLengthExclusions :: "string list" where
  "InvokeExpressionIdentifierLinearLengthExclusions =
     [''#datetime'', ''#datetimezone'', ''#duration'', ''#time'']"

definition TBinOpExpressionLinearLengthThreshold :: nat where
  "TBinOpExpressionLinearLengthThreshold = 30"

definition TBinOpExpressionExpressionNumberThreshold :: nat where
  "TBinOpExpressionExpressionNumberThreshold = 3"

definition InvokeExpressionLinearLengthThreshold :: nat where
  "InvokeExpressionLinearLengthThreshold = 30"

subsection \<open>The tables: reading and writing\<close>

text \<open>
  Modelled from the spec: \<^verbatim>\<open>getIsMultiline\<close> and \<^verbatim>\<open>setIsMultiline\<close> are imported from
  \<^verbatim>\<open>./common\<close>, which is not among the sources. The specification stores every per-node
  fact in a mapping keyed by the identifier derived from the node's token span, reads a
  child's flag as true when the child already has a true flag in the map, and commits
  one value per node.
\<close>

definition getIsMultiline :: "node \<Rightarrow> isMultilineMap \<Rightarrow> bool" where
  "getIsMultiline n isMultilineMap = (isMultilineMap (hash (tokenRangeOf n)) = Some True)"

definition setIsMultiline :: "node \<Rightarrow> isMultilineMap \<Rightarrow> bool \<Rightarrow> isMultilineMap" where
  "setIsMultiline n isMultilineMap isMultiline =
     isMultilineMap(hash (tokenRangeOf n) \<mapsto> isMultiline)"

text \<open>
  Modelled from the spec: \<^verbatim>\<open>maybeGetParent\<close> is imported from \<^verbatim>\<open>../parent\<close>, which is not
  among the sources. The specification gives the parent index as a lookup by node
  identifier that returns the parent, or absence.
\<close>

definition maybeGetParent :: "node \<Rightarrow> parentMap \<Rightarrow> node option" where
  "maybeGetParent n parentMap' = parentMap' (hash (tokenRangeOf n))"

text \<open>
  \<^verbatim>\<open>Array.prototype.indexOf\<close>: the first position of an element, or \<open>-1\<close>.
\<close>

fun indexOf :: "'a list \<Rightarrow> 'a \<Rightarrow> int" where
  "indexOf [] x = -1"
| "indexOf (y # ys) x =
     (if y = x then 0 else (let i = indexOf ys x in if i = -1 then -1 else i + 1))"

subsection \<open>The helpers of the pass\<close>

fun isAnyListOrRecord :: "node list \<Rightarrow> bool" where
  "isAnyListOrRecord [] = False"
| "isAnyListOrRecord (n # nodes) =
     (case n of
        TListOrRecord k tr openWrapperConstant closeWrapperConstant content \<Rightarrow> True
      | _ \<Rightarrow> isAnyListOrRecord nodes)"

text \<open>An absent optional child (\<open>None\<close>) is skipped.\<close>

fun isAnyMultiline :: "isMultilineMap \<Rightarrow> node option list \<Rightarrow> bool" where
  "isAnyMultiline isMultilineMap [] = False"
| "isAnyMultiline isMultilineMap (maybeNode # maybeNodes) =
     (if (case maybeNode of None \<Rightarrow> False | Some n \<Rightarrow> getIsMultiline n isMultilineMap)
      then True
      else isAnyMultiline isMultilineMap maybeNodes)"

text \<open>
  The nodes given one by one come first; the operand of every helper is pushed after
  them.
\<close>

definition isAnyMultilineUnaryHelper ::
  "isMultilineMap \<Rightarrow> unaryExpressionHelper list \<Rightarrow> node list \<Rightarrow> bool" where
  "isAnyMultilineUnaryHelper isMultilineMap unaryExpressions nodes =
     isAnyMultiline isMultilineMap (map Some (nodes @ map helperNode unaryExpressions))"

definition precededByMultilineComment :: "node \<Rightarrow> state \<Rightarrow> bool" where
  "precededByMultilineComment n st =
     (let cacheKey = hash (tokenRangeOf n) in
      case commentCollectionMap st cacheKey of
        Some maybeCommentCollection \<Rightarrow> prefixedCommentsContainsNewline maybeCommentCollection
      | None \<Rightarrow> False)"

definition setIsMultilineWithCommentCheck :: "node \<Rightarrow> state \<Rightarrow> bool \<Rightarrow> state" where
  "setIsMultilineWithCommentCheck n st isMultiline =
     st\<lparr>result :=
          setIsMultiline n (result st)
            (if precededByMultilineComment n st then True else isMultiline)\<rparr>"

text \<open>
  The call is preceded by an identifier when its parent has exactly one recursive
  expression and an identifier expression as head. The first branch throws.
\<close>

definition maybeGetInvokeExpressionIdentifier ::
  "node \<Rightarrow> state \<Rightarrow> error + identifierExpression option" where
  "maybeGetInvokeExpressionIdentifier n st =
     (case maybeGetParent n (parentMap st) of
        Some (RecursivePrimaryExpression tr head recursiveExpressions) \<Rightarrow>
          if length recursiveExpressions \<noteq> 1 then Inr None
          else (case head of
                  IdentifierExpression ie \<Rightarrow> Inr (Some ie)
                | _ \<Rightarrow> Inr None)
      | _ \<Rightarrow>
          Inl (InvariantError
                 ''InvokeExpression should always have a RecursivePrimaryExpression as a parent''
                 (NodeAndAmbientParent n)))"

text \<open>
  \<^verbatim>\<open>Ast.isTBinOpExpression\<close> (the parser package) holds for the four kinds of binary
  operator expression. \<^verbatim>\<open>numTBinOpExpressions\<close> adds up the count of \<^verbatim>\<open>node.first\<close> and
  the count of every element of \<^verbatim>\<open>node.rest\<close>; the elements of \<^verbatim>\<open>rest\<close> are the helpers
  themselves, not their operands.
\<close>

function (sequential) numTBinOpExpressions :: "node \<Rightarrow> nat" where
  "numTBinOpExpressions (TBinOpExpression k tr first rest) =
     foldl (\<lambda>numberOfChildArgs child.
              numberOfChildArgs + numTBinOpExpressions (UnaryExpressionHelperNode child))
       (numTBinOpExpressions first) rest"
| "numTBinOpExpressions n = 1"
  by pat_completeness auto
termination
proof (relation "measure size")
  show "wf (measure (size :: node \<Rightarrow> nat))"
    by simp
next
  fix k :: binOpExpressionKind and tr :: tokenRange and first :: node
    and rest :: "unaryExpressionHelper list"
  show "(first, TBinOpExpression k tr first rest) \<in> measure size"
    by simp
next
  fix k :: binOpExpressionKind and tr :: tokenRange and first :: node
    and rest :: "unaryExpressionHelper list" and child :: unaryExpressionHelper
  assume "child \<in> set rest"
  then have "Suc (size child) \<le> size_list size rest"
    by (induction rest) auto
  then show "(UnaryExpressionHelperNode child, TBinOpExpression k tr first rest) \<in> measure size"
    by simp
qed

subsection \<open>visitNode\<close>

text \<open>
  \<^verbatim>\<open>visitNode\<close> is a switch over the kind of the node that assigns the local variable
  \<^verbatim>\<open>isMultiline\<close> (initially false), followed by one call of
  \<^verbatim>\<open>setIsMultilineWithCommentCheck\<close>. \<open>visitNodeSwitch\<close> is the switch: it returns the
  value of \<^verbatim>\<open>isMultiline\<close> when the switch is left, or the error thrown inside it. The
  \<^verbatim>\<open>default\<close> case (\<^verbatim>\<open>isNever\<close>) has no counterpart: the constructors below are all the
  kinds there are.
\<close>

fun visitNodeSwitch :: "externals \<Rightarrow> node \<Rightarrow> state \<Rightarrow> error + bool" where
  "visitNodeSwitch ext (TPairedConstant k tr constant paired) st =
     Inr (isAnyMultiline (result st) [Some (Constant constant), Some paired])"
| "visitNodeSwitch ext (TBinOpExpression k tr first rest) st =
     (let n = TBinOpExpression k tr first rest;
          numExpressions = numTBinOpExpressions n in
      if numExpressions > TBinOpExpressionExpressionNumberThreshold then Inr True
      else
        (let linearLength = getLinearLength ext n (linearLengthMap st) in
         if linearLength > TBinOpExpressionLinearLengthThreshold then Inr True
         else Inr (isAnyMultilineUnaryHelper (result st) rest [first])))"
| "visitNodeSwitch ext (TBinOpKeyword k tr left constant right) st =
     Inr (isAnyMultiline (result st) [Some left, Some (Constant constant), Some right])"
| "visitNodeSwitch ext (TKeyValuePair k tr key equalConstant v) st =
     Inr (isAnyMultiline (result st) [Some key, Some (Constant equalConstant), Some v])"
| "visitNodeSwitch ext (TListOrRecord k tr openWrapperConstant closeWrapperConstant content) st =
     (if length content > 1 then Inr True
      else
        (let isAnyChildMultiline =
               isAnyMultiline (result st)
                 ([Some (Constant openWrapperConstant), Some (Constant closeWrapperConstant)]
                  @ map (Some \<circ> CsvNode) content) in
         if isAnyChildMultiline then Inr True
         else
           (let csvs = content;
                csvNodes = map csvNode csvs in
            Inr (isAnyListOrRecord csvNodes))))"
| "visitNodeSwitch ext (CsvNode (Csv tr n maybeCommaConstant)) st =
     Inr (isAnyMultiline (result st) [Some n, map_option Constant maybeCommaConstant])"
| "visitNodeSwitch ext
     (ErrorHandlingExpression tr tryConstant protectedExpression maybeOtherwiseExpression) st =
     Inr (isAnyMultiline (result st)
            [Some (Constant tryConstant), Some protectedExpression, maybeOtherwiseExpression])"
| "visitNodeSwitch ext
     (FieldProjection tr openWrapperConstant closeWrapperConstant maybeOptionalConstant content)
     st =
     Inr (isAnyMultiline (result st)
            ([Some (Constant openWrapperConstant), Some (Constant closeWrapperConstant),
              map_option Constant maybeOptionalConstant]
             @ map Some content))"
| "visitNodeSwitch ext
     (FieldSelector tr openWrapperConstant content closeWrapperConstant maybeOptionalConstant)
     st =
     Inr (isAnyMultiline (result st)
            [Some (Constant openWrapperConstant), Some content,
             Some (Constant closeWrapperConstant), map_option Constant maybeOptionalConstant])"
| "visitNodeSwitch ext
     (FieldSpecification tr maybeOptionalConstant name maybeFieldTypeSpeification) st =
     Inr (isAnyMultiline (result st)
            [map_option Constant maybeOptionalConstant, Some name, maybeFieldTypeSpeification])"
| "visitNodeSwitch ext (FieldSpecificationList tr content maybeOpenRecordMarkerConstant) st =
     (let fields' = content in
      if length fields' > 1 then Inr True
      else if length fields' = 1 \<and> maybeOpenRecordMarkerConstant \<noteq> None then Inr True
      else Inr False)"
| "visitNodeSwitch ext (FieldTypeSpecification tr equalConstant fieldType) st =
     Inr (isAnyMultiline (result st) [Some (Constant equalConstant), Some fieldType])"
| "visitNodeSwitch ext (FunctionExpression tr expression) st =
     Inr (getIsMultiline expression (result st))"
| "visitNodeSwitch ext (IdentifierExpression ie) st =
     Inr (isAnyMultiline (result st)
            [map_option Constant (maybeInclusiveConstant ie), Some (Identifier (identifier ie))])"
| "visitNodeSwitch ext (IfExpression tr condition trueExpression falseExpression) st = Inr True"
| "visitNodeSwitch ext (InvokeExpression tr openWrapperConstant closeWrapperConstant content) st =
     (let n = InvokeExpression tr openWrapperConstant closeWrapperConstant content;
          args = content in
      if length args > 1 then
        (let linearLength = getLinearLength ext n (linearLengthMap st);
             maybeParent = maybeGetParent n (parentMap st) in
         case maybeParent of
           Some (RecursivePrimaryExpression ptr head recursiveExpressions) \<Rightarrow>
             (let headLinearLength = getLinearLength ext head (linearLengthMap st);
                  compositeLinearLength = linearLength + headLinearLength in
              if compositeLinearLength > InvokeExpressionLinearLengthThreshold then
                (case maybeGetInvokeExpressionIdentifier n st of
                   Inl e \<Rightarrow> Inl e
                 | Inr None \<Rightarrow> Inr False
                 | Inr (Some maybeInvokeExpressionIdentifier) \<Rightarrow>
                     if maybeInclusiveConstant maybeInvokeExpressionIdentifier \<noteq> None
                     then Inr True
                     else
                       (let identifierLiteral =
                              literal (identifier maybeInvokeExpressionIdentifier) in
                        Inr (indexOf InvokeExpressionIdentifierLinearLengthExclusions
                               identifierLiteral = -1)))
              else
                Inr (isAnyMultiline (result st)
                       ([Some (Constant openWrapperConstant),
                         Some (Constant closeWrapperConstant)]
                        @ map (Some \<circ> CsvNode) args)))
         | _ \<Rightarrow>
             Inl (InvariantError
                    ''InvokeExpression must have RecursivePrimaryExpression as a parent''
                    (NodeAndMaybeParent n maybeParent)))
      else
        Inr (isAnyMultiline (result st)
               ([Some (Constant openWrapperConstant), Some (Constant closeWrapperConstant)]
                @ map (Some \<circ> CsvNode) args)))"
| "visitNodeSwitch ext
     (ItemAccessExpression tr maybeOptionalConstant content closeWrapperConstant) st =
     Inr (isAnyMultiline (result st)
            [map_option Constant maybeOptionalConstant, Some content,
             Some (Constant closeWrapperConstant), map_option Constant maybeOptionalConstant])"
| "visitNodeSwitch ext (LetExpression tr variableList expression) st = Inr True"
| "visitNodeSwitch ext (LiteralExpression tr literalKind' literal') st =
     (if literalKind' = Str \<and> containsNewline ext literal' then Inr True else Inr False)"
| "visitNodeSwitch ext (ListType tr openWrapperConstant content closeWrapperConstant) st =
     Inr (isAnyMultiline (result st)
            [Some (Constant openWrapperConstant), Some content,
             Some (Constant closeWrapperConstant)])"
| "visitNodeSwitch ext
     (ParenthesizedExpression tr openWrapperConstant content closeWrapperConstant) st =
     Inr (isAnyMultiline (result st)
            [Some (Constant openWrapperConstant), Some content,
             Some (Constant closeWrapperConstant)])"
| "visitNodeSwitch ext (PrimitiveType tr primitiveType) st =
     Inr (getIsMultiline (Constant primitiveType) (result st))"
| "visitNodeSwitch ext (RecordType tr fields') st = Inr (getIsMultiline fields' (result st))"
| "visitNodeSwitch ext (RecursivePrimaryExpression tr head recursiveExpressions) st =
     Inr (isAnyMultiline (result st) (Some head # map Some recursiveExpressions))"
| "visitNodeSwitch ext
     (Section tr maybeLiteralAttributes sectionConstant maybeName semicolonConstant
        sectionMembers) st =
     (if length sectionMembers \<noteq> 0 then Inr True
      else
        Inr (isAnyMultiline (result st)
               ([maybeLiteralAttributes, Some (Constant sectionConstant), maybeName,
                 Some (Constant semicolonConstant)]
                @ map Some sectionMembers)))"
| "visitNodeSwitch ext
     (SectionMember tr maybeLiteralAttributes maybeSharedConstant namePairedExpression
        semicolonConstant) st =
     Inr (isAnyMultiline (result st)
            [maybeLiteralAttributes, map_option Constant maybeSharedConstant,
             Some namePairedExpression, Some (Constant semicolonConstant)])"
| "visitNodeSwitch ext (TableType tr tableConstant rowType) st =
     Inr (isAnyMultiline (result st) [Some (Constant tableConstant), Some rowType])"
| "visitNodeSwitch ext (UnaryExpression tr expressions) st =
     Inr (isAnyMultilineUnaryHelper (result st) expressions [])"
| "visitNodeSwitch ext (UnaryExpressionHelperNode (UnaryExpressionHelper tr operatorConstant n))
     st =
     Inr (isAnyMultiline (result st) [Some (Constant operatorConstant), Some n])"
| "visitNodeSwitch ext (Constant c) st = Inr False"
| "visitNodeSwitch ext (FunctionType tr) st = Inr False"
| "visitNodeSwitch ext (GeneralizedIdentifier g) st = Inr False"
| "visitNodeSwitch ext (Identifier i) st = Inr False"
| "visitNodeSwitch ext (NotImplementedExpression tr) st = Inr False"
| "visitNodeSwitch ext (Parameter tr) st = Inr False"
| "visitNodeSwitch ext (ParameterList tr) st = Inr False"

text \<open>
  \<^verbatim>\<open>visitNode\<close>: the switch, then the comment check and the write to \<^verbatim>\<open>state.result\<close>. An
  error thrown in the switch leaves \<^verbatim>\<open>visitNode\<close> before anything is written.
\<close>

definition visitNode :: "externals \<Rightarrow> node \<Rightarrow> state \<Rightarrow> error + state" where
  "visitNode ext n st =
     (case visitNodeSwitch ext n st of
        Inl e \<Rightarrow> Inl e
      | Inr isMultiline \<Rightarrow> Inr (setIsMultilineWithCommentCheck n st isMultiline))"

subsection \<open>The operand count as the specification words it\<close>




text \<open>A node is a list or record when it is one of the four kinds \<open>isAnyListOrRecord\<close> looks for.\<close>

fun isListOrRecord :: "node \<Rightarrow> bool" where
  "isListOrRecord (TListOrRecord k tr openWrapperConstant closeWrapperConstant content) = True"
| "isListOrRecord n = False"

subsection \<open>Example documents\<close>

text \<open>
  Concrete trees and states on which the theorems below are run. Hashes are written
  \<^verbatim>\<open>kind:first token,last token\<close>; all that matters is that different nodes have different
  hashes.
\<close>

definition mkTokenRange :: "string \<Rightarrow> tokenRange" where
  "mkTokenRange h = \<lparr>hash = h\<rparr>"

definition mkTerminal :: "string \<Rightarrow> string \<Rightarrow> terminal" where
  "mkTerminal h text = \<lparr>tokenRange = mkTokenRange h, literal = text\<rparr>"

definition mkIdentifierExpression :: "string \<Rightarrow> string \<Rightarrow> identifierExpression" where
  "mkIdentifierExpression position text =
     \<lparr>tokenRange = mkTokenRange (''IdentifierExpression:'' @ position),
      maybeInclusiveConstant = None,
      identifier = mkTerminal (''Identifier:'' @ position) text\<rparr>"

definition mkNumber :: "string \<Rightarrow> string \<Rightarrow> node" where
  "mkNumber position text =
     LiteralExpression (mkTokenRange (''LiteralExpression:'' @ position)) NumericLiteral text"

text \<open>An argument or list item, with the comma that follows it (if any).\<close>

definition mkCsv :: "string \<Rightarrow> node \<Rightarrow> bool \<Rightarrow> csv" where
  "mkCsv position n comma =
     Csv (mkTokenRange (''Csv:'' @ position)) n
       (if comma then Some (mkTerminal (''Constant:'' @ position @ '',comma'') '','') else None)"

definition mkHelper :: "string \<Rightarrow> string \<Rightarrow> node \<Rightarrow> unaryExpressionHelper" where
  "mkHelper position operator n =
     UnaryExpressionHelper (mkTokenRange (''UnaryExpressionHelper:'' @ position))
       (mkTerminal (''Constant:'' @ position) operator) n"

text \<open>
  The linear length pass and the newline test of the examples: lengths are looked up in
  a table by hash (zero for a node the table leaves out), and a line break is a line
  feed or a carriage return.
\<close>

definition exampleExternals :: "(string \<times> nat) list \<Rightarrow> externals" where
  "exampleExternals lengths =
     \<lparr>getLinearLength =
        (\<lambda>n cache. case map_of lengths (hash (tokenRangeOf n)) of Some l \<Rightarrow> l | None \<Rightarrow> 0),
      containsNewline = (\<lambda>text. CHR 0x0A \<in> set text \<or> CHR 0x0D \<in> set text)\<rparr>"

text \<open>
  A state: the flags committed so far, the hashes preceded by a comment block (with
  whether that block holds a line break), and the parents.
\<close>

definition exampleState ::
  "(string \<times> bool) list \<Rightarrow> (string \<times> bool) list \<Rightarrow> (string \<times> node) list \<Rightarrow> state" where
  "exampleState flags comments parents =
     \<lparr>result = map_of flags,
      commentCollectionMap =
        map_of (map (\<lambda>(h, b). (h, \<lparr>prefixedCommentsContainsNewline = b\<rparr>)) comments),
      parentMap = map_of parents,
      linearLengthMap = Map.empty\<rparr>"

text \<open>\<^verbatim>\<open>#datetimezone(2013,02,26,09,15,00,09,00)\<close>: the call, and the expression around it.\<close>

definition datetimezoneArgs :: "csv list" where
  "datetimezoneArgs =
     [mkCsv ''2'' (mkNumber ''2'' ''2013'') True, mkCsv ''4'' (mkNumber ''4'' ''02'') True,
      mkCsv ''6'' (mkNumber ''6'' ''26'') True, mkCsv ''8'' (mkNumber ''8'' ''09'') True,
      mkCsv ''10'' (mkNumber ''10'' ''15'') True, mkCsv ''12'' (mkNumber ''12'' ''00'') True,
      mkCsv ''14'' (mkNumber ''14'' ''09'') True, mkCsv ''16'' (mkNumber ''16'' ''00'') False]"

definition datetimezoneInvoke :: node where
  "datetimezoneInvoke =
     InvokeExpression (mkTokenRange ''InvokeExpression:1,17'')
       (mkTerminal ''Constant:1'' ''('') (mkTerminal ''Constant:17'' '')'') datetimezoneArgs"

definition datetimezoneCall :: node where
  "datetimezoneCall =
     RecursivePrimaryExpression (mkTokenRange ''RecursivePrimaryExpression:0,17'')
       (IdentifierExpression (mkIdentifierExpression ''0,0'' ''#datetimezone''))
       [datetimezoneInvoke]"

definition datetimezoneLengths :: "(string \<times> nat) list" where
  "datetimezoneLengths = [(''InvokeExpression:1,17'', 27), (''IdentifierExpression:0,0'', 13)]"

text \<open>
  \<^verbatim>\<open>makeAdder(1)(aVeryLongArgumentNameOne, aVeryLongArgumentNameTwo)\<close>: a call of the result
  of a call. Both calls are recursive expressions of the one expression whose head is
  \<^verbatim>\<open>makeAdder\<close>.
\<close>

definition curriedFirstInvoke :: node where
  "curriedFirstInvoke =
     InvokeExpression (mkTokenRange ''InvokeExpression:1,3'')
       (mkTerminal ''Constant:1'' ''('') (mkTerminal ''Constant:3'' '')'')
       [mkCsv ''2'' (mkNumber ''2'' ''1'') False]"

definition curriedSecondInvoke :: node where
  "curriedSecondInvoke =
     InvokeExpression (mkTokenRange ''InvokeExpression:4,8'')
       (mkTerminal ''Constant:4'' ''('') (mkTerminal ''Constant:8'' '')'')
       [mkCsv ''5''
          (IdentifierExpression (mkIdentifierExpression ''5,5'' ''aVeryLongArgumentNameOne''))
          True,
        mkCsv ''7''
          (IdentifierExpression (mkIdentifierExpression ''7,7'' ''aVeryLongArgumentNameTwo''))
          False]"

definition curriedCall :: node where
  "curriedCall =
     RecursivePrimaryExpression (mkTokenRange ''RecursivePrimaryExpression:0,8'')
       (IdentifierExpression (mkIdentifierExpression ''0,0'' ''makeAdder''))
       [curriedFirstInvoke, curriedSecondInvoke]"

definition curriedLengths :: "(string \<times> nat) list" where
  "curriedLengths =
     [(''InvokeExpression:4,8'', 52), (''InvokeExpression:1,3'', 3),
      (''IdentifierExpression:0,0'', 9)]"

text \<open>
  \<^verbatim>\<open>foo(aVeryLongArgumentNameOne, aVeryLongArgumentNameTwo, more)\<close>.
\<close>

definition fooInvoke :: node where
  "fooInvoke =
     InvokeExpression (mkTokenRange ''InvokeExpression:1,7'')
       (mkTerminal ''Constant:1'' ''('') (mkTerminal ''Constant:7'' '')'')
       [mkCsv ''2''
          (IdentifierExpression (mkIdentifierExpression ''2,2'' ''aVeryLongArgumentNameOne''))
          True,
        mkCsv ''4''
          (IdentifierExpression (mkIdentifierExpression ''4,4'' ''aVeryLongArgumentNameTwo''))
          True,
        mkCsv ''6'' (IdentifierExpression (mkIdentifierExpression ''6,6'' ''more'')) False]"

definition fooCall :: node where
  "fooCall =
     RecursivePrimaryExpression (mkTokenRange ''RecursivePrimaryExpression:0,7'')
       (IdentifierExpression (mkIdentifierExpression ''0,0'' ''foo''))
       [fooInvoke]"

definition fooLengths :: "(string \<times> nat) list" where
  "fooLengths = [(''InvokeExpression:1,7'', 58), (''IdentifierExpression:0,0'', 3)]"

text \<open>
  \<^verbatim>\<open>foo(if true then 1 else 0)\<close>: the conditional, the argument that holds it, and the
  call.
\<close>

definition conditional :: node where
  "conditional =
     IfExpression (mkTokenRange ''IfExpression:2,7'')
       (LiteralExpression (mkTokenRange ''LiteralExpression:3'') LogicalLiteral ''true'')
       (mkNumber ''5'' ''1'') (mkNumber ''7'' ''0'')"

definition conditionalInvoke :: node where
  "conditionalInvoke =
     InvokeExpression (mkTokenRange ''InvokeExpression:1,8'')
       (mkTerminal ''Constant:1'' ''('') (mkTerminal ''Constant:8'' '')'')
       [mkCsv ''2,7'' conditional False]"

text \<open>The text literal \<^verbatim>\<open>"abc"\<close>.\<close>

definition abcLiteral :: node where
  "abcLiteral = LiteralExpression (mkTokenRange ''LiteralExpression:0,0'') Str ''\"abc\"''"

text \<open>The list \<^verbatim>\<open>{1}\<close>.\<close>

definition singletonList :: node where
  "singletonList =
     TListOrRecord ListExpression (mkTokenRange ''ListExpression:0,2'')
       (mkTerminal ''Constant:0'' ''{'') (mkTerminal ''Constant:2'' ''}'')
       [mkCsv ''1'' (mkNumber ''1'' ''1'') False]"








section \<open>Properties of the pass\<close>

subsection \<open>Auxiliary facts\<close>


lemma isAnyListOrRecord_iff:
  "isAnyListOrRecord nodes = (\<exists>n \<in> set nodes. isListOrRecord n)"
proof (induction nodes)
  case Nil
  show ?case by simp
next
  case (Cons n nodes)
  then show ?case by (cases n) simp_all
qed

text \<open>
  What \<^verbatim>\<open>visitNode\<close> writes when the switch ends with the value \<open>b\<close>: the entry of the node
  becomes \<open>b\<close>, or true when a comment block with a line break precedes the node.
\<close>

lemma visitNode_commit:
  assumes "visitNodeSwitch ext n st = Inr b"
  shows "visitNode ext n st =
           Inr (st\<lparr>result := (result st)(hash (tokenRangeOf n) \<mapsto>
                                  (b \<or> precededByMultilineComment n st))\<rparr>)"
  using assms by (simp add: visitNode_def setIsMultilineWithCommentCheck_def setIsMultiline_def)

lemma isAnyMultiline_map:
  "isAnyMultiline m (map (Some \<circ> f) xs) = (\<exists>x \<in> set xs. getIsMultiline (f x) m)"
  by (induction xs) auto

lemma isAnyMultiline_wrapped:
  "isAnyMultiline m (Some (Constant ow) # Some (Constant cw) # map (Some \<circ> CsvNode) content) =
     (getIsMultiline (Constant ow) m \<or> getIsMultiline (Constant cw) m
      \<or> (\<exists>item \<in> set content. getIsMultiline (CsvNode item) m))"
  by (simp add: isAnyMultiline_map)

lemma indexOf_absent: "(indexOf xs x = -1) = (x \<notin> set xs)"
proof (induction xs)
  case Nil
  show ?case by simp
next
  case (Cons y ys)
  have "indexOf ys x \<ge> -1"
    by (induction ys) (auto simp: Let_def)
  with Cons show ?case
    by (auto simp: Let_def)
qed

lemmas example_defs =
  exampleState_def exampleExternals_def mkTokenRange_def mkTerminal_def
  mkIdentifierExpression_def mkNumber_def mkCsv_def mkHelper_def

subsection \<open>The comment check\<close>

text \<open>
  C3. For every node, whatever value \<open>b\<close> the rule of its kind computed: if the comment
  index holds an entry for the hash of the node's token range and that entry says the
  preceding comments contain a line break, the committed flag is true (first conjunct,
  for \<open>setIsMultilineWithCommentCheck\<close> and for \<open>visitNode\<close> as a whole). The check never
  turns a true value into false (second conjunct). Applying the check again to the value
  it committed changes nothing (third conjunct).
\<close>

theorem comment_override:
  "(commentCollectionMap st (hash (tokenRangeOf n)) = Some c
      \<and> prefixedCommentsContainsNewline c
    \<longrightarrow> result (setIsMultilineWithCommentCheck n st b) (hash (tokenRangeOf n)) = Some True
        \<and> (visitNodeSwitch ext n st = Inr b
            \<longrightarrow> visitNode ext n st =
                  Inr (st\<lparr>result := (result st)(hash (tokenRangeOf n) \<mapsto> True)\<rparr>)))
   \<and> (b \<longrightarrow> result (setIsMultilineWithCommentCheck n st b) (hash (tokenRangeOf n)) = Some True)
   \<and> (result (setIsMultilineWithCommentCheck n st b) (hash (tokenRangeOf n)) = Some b'
        \<longrightarrow> setIsMultilineWithCommentCheck n (setIsMultilineWithCommentCheck n st b) b'
            = setIsMultilineWithCommentCheck n st b)"
proof -
  have forced: "result (setIsMultilineWithCommentCheck n st b) (hash (tokenRangeOf n)) = Some True"
    if "commentCollectionMap st (hash (tokenRangeOf n)) = Some c"
      and "prefixedCommentsContainsNewline c"
    using that
    by (simp add: setIsMultilineWithCommentCheck_def setIsMultiline_def
        precededByMultilineComment_def)
  have visit: "visitNode ext n st =
                 Inr (st\<lparr>result := (result st)(hash (tokenRangeOf n) \<mapsto> True)\<rparr>)"
    if "commentCollectionMap st (hash (tokenRangeOf n)) = Some c"
      and "prefixedCommentsContainsNewline c"
      and "visitNodeSwitch ext n st = Inr b"
    using that
    by (simp add: visitNode_commit precededByMultilineComment_def)
  have monotonic:
    "result (setIsMultilineWithCommentCheck n st b) (hash (tokenRangeOf n)) = Some True" if b
    using that by (simp add: setIsMultilineWithCommentCheck_def setIsMultiline_def)
  have same_comments:
    "precededByMultilineComment n (setIsMultilineWithCommentCheck n st b) =
       precededByMultilineComment n st"
    by (simp add: setIsMultilineWithCommentCheck_def precededByMultilineComment_def)
  have idempotent:
    "setIsMultilineWithCommentCheck n (setIsMultilineWithCommentCheck n st b) b'
       = setIsMultilineWithCommentCheck n st b"
    if "result (setIsMultilineWithCommentCheck n st b) (hash (tokenRangeOf n)) = Some b'"
  proof -
    from that have "b' = (if precededByMultilineComment n st then True else b)"
      by (simp add: setIsMultilineWithCommentCheck_def setIsMultiline_def)
    then show ?thesis
      unfolding setIsMultilineWithCommentCheck_def [of n "setIsMultilineWithCommentCheck n st b"]
        same_comments
      by (simp add: setIsMultilineWithCommentCheck_def setIsMultiline_def)
  qed
  from forced visit monotonic idempotent show ?thesis
    by blast
qed

text \<open>
  The theorem at the text literal \<^verbatim>\<open>"abc"\<close> preceded by a comment with a line break: the
  rule gives false, true is committed, and a second application of the check to the
  committed value leaves the state as it is.
\<close>

theorem comment_override_witness:
  "result (setIsMultilineWithCommentCheck abcLiteral
             (exampleState [] [(''LiteralExpression:0,0'', True)] []) False)
     ''LiteralExpression:0,0'' = Some True
   \<and> visitNode (exampleExternals []) abcLiteral
        (exampleState [] [(''LiteralExpression:0,0'', True)] [])
      = Inr ((exampleState [] [(''LiteralExpression:0,0'', True)] [])
               \<lparr>result := [''LiteralExpression:0,0'' \<mapsto> True]\<rparr>)
   \<and> setIsMultilineWithCommentCheck abcLiteral
        (setIsMultilineWithCommentCheck abcLiteral
           (exampleState [] [(''LiteralExpression:0,0'', True)] []) False) True
      = setIsMultilineWithCommentCheck abcLiteral
          (exampleState [] [(''LiteralExpression:0,0'', True)] []) False"
proof -
  have entry: "commentCollectionMap (exampleState [] [(''LiteralExpression:0,0'', True)] [])
                 (hash (tokenRangeOf abcLiteral))
               = Some \<lparr>prefixedCommentsContainsNewline = True\<rparr>"
    by (simp add: exampleState_def abcLiteral_def mkTokenRange_def)
  have rule: "visitNodeSwitch (exampleExternals []) abcLiteral
                (exampleState [] [(''LiteralExpression:0,0'', True)] []) = Inr False"
    by (simp add: abcLiteral_def exampleExternals_def)
  have key: "hash (tokenRangeOf abcLiteral) = ''LiteralExpression:0,0''"
    by (simp add: abcLiteral_def mkTokenRange_def)
  have empty: "result (exampleState [] [(''LiteralExpression:0,0'', True)] []) = Map.empty"
    by (simp add: exampleState_def)
  from comment_override [of "exampleState [] [(''LiteralExpression:0,0'', True)] []" abcLiteral
      "\<lparr>prefixedCommentsContainsNewline = True\<rparr>" False "exampleExternals []" True]
    entry rule
  show ?thesis
    by (simp add: key empty)
qed

subsection \<open>Rules that read no table\<close>

text \<open>
  C9. For every \<^verbatim>\<open>if\<close> expression and every \<^verbatim>\<open>let\<close> expression, whatever its children, the
  externals and the state (flags committed so far, comments, parents, linear lengths),
  \<^verbatim>\<open>visitNode\<close> returns normally and the flag it commits for the node is true.
\<close>

theorem if_let_always_multiline:
  "visitNode ext (IfExpression tr condition trueExpression falseExpression) st =
     Inr (st\<lparr>result := (result st)(hash tr \<mapsto> True)\<rparr>)
   \<and> visitNode ext (LetExpression tr variableList expression) st =
     Inr (st\<lparr>result := (result st)(hash tr \<mapsto> True)\<rparr>)"
  by (simp add: visitNode_commit)

text \<open>
  C7. For every field specification list, the value the rule computes is true exactly
  when the list has more than one field, or has one field and an open record marker.
  Neither the table of flags nor any other part of the state is read, so the flags of
  the field and of the wrappers make no difference.
\<close>

theorem fieldSpecificationList_rule:
  "visitNodeSwitch ext (FieldSpecificationList tr content maybeOpenRecordMarkerConstant) st =
     Inr (length content > 1 \<or> (length content = 1 \<and> maybeOpenRecordMarkerConstant \<noteq> None))"
  by simp

text \<open>
  C8, as amended. For every literal, the value the rule computes is true exactly when
  the literal is a text literal whose text contains a line break. The committed flag is
  that value, or true when a comment block with a line break precedes the literal.
\<close>

theorem literal_flag:
  "visitNodeSwitch ext (LiteralExpression tr k text) st =
     Inr (k = Str \<and> containsNewline ext text)
   \<and> visitNode ext (LiteralExpression tr k text) st =
     Inr (st\<lparr>result := (result st)(hash tr \<mapsto>
            ((k = Str \<and> containsNewline ext text)
             \<or> precededByMultilineComment (LiteralExpression tr k text) st))\<rparr>)"
proof -
  have rule: "visitNodeSwitch ext (LiteralExpression tr k text) st =
     Inr (k = Str \<and> containsNewline ext text)"
    by simp
  from visitNode_commit [OF rule] rule show ?thesis
    by simp
qed

text \<open>
  C8 as stated fails: the text literal \<^verbatim>\<open>"abc"\<close> contains no line break, and when a
  comment block with a line break precedes it the committed flag is true.
\<close>

theorem literal_flag_counterexample:
  "\<not> containsNewline (exampleExternals []) ''\"abc\"''
   \<and> visitNode (exampleExternals [])
        (LiteralExpression (mkTokenRange ''LiteralExpression:0,0'') Str ''\"abc\"'')
        (exampleState [] [(''LiteralExpression:0,0'', True)] [])
      = Inr ((exampleState [] [(''LiteralExpression:0,0'', True)] [])
               \<lparr>result := [''LiteralExpression:0,0'' \<mapsto> True]\<rparr>)"
  by (simp add: visitNode_def setIsMultilineWithCommentCheck_def setIsMultiline_def
      precededByMultilineComment_def exampleExternals_def exampleState_def mkTokenRange_def)

subsection \<open>Calls\<close>

text \<open>
  The invoke rule for a call with several arguments that lies below a recursive primary
  expression and is longer than the threshold, with the lookup of the identifier still
  folded.
\<close>

lemma invoke_switch_long:
  assumes "length content > 1"
    and "maybeGetParent (InvokeExpression tr ow cw content) (parentMap st) =
           Some (RecursivePrimaryExpression ptr head recursiveExpressions)"
    and "getLinearLength ext (InvokeExpression tr ow cw content) (linearLengthMap st)
         + getLinearLength ext head (linearLengthMap st) > 30"
  shows "visitNodeSwitch ext (InvokeExpression tr ow cw content) st =
           (case maybeGetInvokeExpressionIdentifier (InvokeExpression tr ow cw content) st of
              Inl e \<Rightarrow> Inl e
            | Inr None \<Rightarrow> Inr False
            | Inr (Some ie) \<Rightarrow>
                Inr (maybeInclusiveConstant ie \<noteq> None
                     \<or> literal (identifier ie)
                         \<notin> set InvokeExpressionIdentifierLinearLengthExclusions))"
  using assms
  by (simp add: Let_def InvokeExpressionLinearLengthThreshold_def indexOf_absent
      split: sum.splits option.splits)

text \<open>
  C1. The call \<^verbatim>\<open>makeAdder(1)(aVeryLongArgumentNameOne, aVeryLongArgumentNameTwo)\<close>: the
  second call has two arguments, its parent is a recursive primary expression, and its
  length plus the length of the head is 61. The head is not one of the four excluded
  identifiers. The parent has two recursive expressions, so
  \<^verbatim>\<open>maybeGetInvokeExpressionIdentifier\<close> returns nothing, no branch assigns \<^verbatim>\<open>isMultiline\<close>,
  and the flag committed for the call is false.
\<close>

theorem long_call_unresolved_head:
  "curriedSecondInvoke =
     InvokeExpression (mkTokenRange ''InvokeExpression:4,8'')
       (mkTerminal ''Constant:4'' ''('') (mkTerminal ''Constant:8'' '')'')
       [mkCsv ''5''
          (IdentifierExpression (mkIdentifierExpression ''5,5'' ''aVeryLongArgumentNameOne''))
          True,
        mkCsv ''7''
          (IdentifierExpression (mkIdentifierExpression ''7,7'' ''aVeryLongArgumentNameTwo''))
          False]
   \<and> maybeGetParent curriedSecondInvoke
       (parentMap (exampleState [] []
          [(''InvokeExpression:1,3'', curriedCall), (''InvokeExpression:4,8'', curriedCall)]))
     = Some (RecursivePrimaryExpression (mkTokenRange ''RecursivePrimaryExpression:0,8'')
               (IdentifierExpression (mkIdentifierExpression ''0,0'' ''makeAdder''))
               [curriedFirstInvoke, curriedSecondInvoke])
   \<and> getLinearLength (exampleExternals curriedLengths) curriedSecondInvoke Map.empty
       + getLinearLength (exampleExternals curriedLengths)
           (IdentifierExpression (mkIdentifierExpression ''0,0'' ''makeAdder'')) Map.empty
     = 61
   \<and> visitNode (exampleExternals curriedLengths) curriedSecondInvoke
       (exampleState [] []
          [(''InvokeExpression:1,3'', curriedCall), (''InvokeExpression:4,8'', curriedCall)])
     = Inr ((exampleState [] []
               [(''InvokeExpression:1,3'', curriedCall), (''InvokeExpression:4,8'', curriedCall)])
              \<lparr>result := [''InvokeExpression:4,8'' \<mapsto> False]\<rparr>)"
  by (simp add: visitNode_def setIsMultilineWithCommentCheck_def setIsMultiline_def
      precededByMultilineComment_def maybeGetParent_def
      maybeGetInvokeExpressionIdentifier_def InvokeExpressionLinearLengthThreshold_def
      curriedSecondInvoke_def curriedCall_def curriedLengths_def example_defs)

text \<open>
  C2, as amended. For every call with more than one argument whose length plus the
  length of the head of its parent exceeds 30, where the parent is a recursive primary
  expression with exactly one recursive expression and the head is an identifier
  expression without \<^verbatim>\<open>@\<close> whose identifier is \<^verbatim>\<open>#datetime\<close>, \<^verbatim>\<open>#datetimezone\<close>, \<^verbatim>\<open>#duration\<close>
  or \<^verbatim>\<open>#time\<close>: the value the rule computes is false, whatever the flags of the
  arguments, and the committed flag is true exactly when a comment block with a line
  break precedes the call.
\<close>

theorem excluded_constructor_call:
  assumes "length content > 1"
    and "maybeGetParent (InvokeExpression tr ow cw content) (parentMap st) =
           Some (RecursivePrimaryExpression ptr (IdentifierExpression ie) [chained])"
    and "maybeInclusiveConstant ie = None"
    and "literal (identifier ie) \<in> set [''#datetime'', ''#datetimezone'', ''#duration'', ''#time'']"
    and "getLinearLength ext (InvokeExpression tr ow cw content) (linearLengthMap st)
         + getLinearLength ext (IdentifierExpression ie) (linearLengthMap st) > 30"
  shows "visitNodeSwitch ext (InvokeExpression tr ow cw content) st = Inr False
         \<and> visitNode ext (InvokeExpression tr ow cw content) st =
             Inr (st\<lparr>result := (result st)(hash tr \<mapsto>
                    precededByMultilineComment (InvokeExpression tr ow cw content) st)\<rparr>)"
proof -
  have ident: "maybeGetInvokeExpressionIdentifier (InvokeExpression tr ow cw content) st =
                 Inr (Some ie)"
    using assms(2) by (simp add: maybeGetInvokeExpressionIdentifier_def)
  have excluded: "literal (identifier ie) \<in> set InvokeExpressionIdentifierLinearLengthExclusions"
    using assms(4) by (simp add: InvokeExpressionIdentifierLinearLengthExclusions_def)
  have rule: "visitNodeSwitch ext (InvokeExpression tr ow cw content) st = Inr False"
    using invoke_switch_long [OF assms(1) assms(2) assms(5)] ident excluded assms(3)
    by simp
  from visitNode_commit [OF rule] rule show ?thesis
    by simp
qed

text \<open>
  The theorem at \<^verbatim>\<open>#datetimezone(2013,02,26,09,15,00,09,00)\<close> with no comment in front:
  eight arguments, lengths 27 and 13, and false is committed.
\<close>

theorem excluded_constructor_call_witness:
  "visitNodeSwitch (exampleExternals datetimezoneLengths) datetimezoneInvoke
     (exampleState [] [] [(''InvokeExpression:1,17'', datetimezoneCall)]) = Inr False
   \<and> visitNode (exampleExternals datetimezoneLengths) datetimezoneInvoke
       (exampleState [] [] [(''InvokeExpression:1,17'', datetimezoneCall)])
     = Inr ((exampleState [] [] [(''InvokeExpression:1,17'', datetimezoneCall)])
              \<lparr>result := [''InvokeExpression:1,17'' \<mapsto> False]\<rparr>)"
proof -
  let ?st = "exampleState [] [] [(''InvokeExpression:1,17'', datetimezoneCall)]"
  let ?ext = "exampleExternals datetimezoneLengths"
  let ?ie = "mkIdentifierExpression ''0,0'' ''#datetimezone''"
  let ?tr = "mkTokenRange ''InvokeExpression:1,17''"
  let ?ow = "mkTerminal ''Constant:1'' ''(''"
  let ?cw = "mkTerminal ''Constant:17'' '')''"
  have shape: "datetimezoneInvoke = InvokeExpression ?tr ?ow ?cw datetimezoneArgs"
    by (simp add: datetimezoneInvoke_def)
  have args: "length datetimezoneArgs > 1"
    by (simp add: datetimezoneArgs_def)
  have parent: "maybeGetParent (InvokeExpression ?tr ?ow ?cw datetimezoneArgs) (parentMap ?st) =
      Some (RecursivePrimaryExpression (mkTokenRange ''RecursivePrimaryExpression:0,17'')
              (IdentifierExpression ?ie) [datetimezoneInvoke])"
    by (simp add: maybeGetParent_def exampleState_def mkTokenRange_def datetimezoneCall_def)
  have bare: "maybeInclusiveConstant ?ie = None"
    by (simp add: mkIdentifierExpression_def)
  have name: "literal (identifier ?ie)
                \<in> set [''#datetime'', ''#datetimezone'', ''#duration'', ''#time'']"
    by (simp add: mkIdentifierExpression_def mkTerminal_def)
  have long: "getLinearLength ?ext (InvokeExpression ?tr ?ow ?cw datetimezoneArgs)
                (linearLengthMap ?st)
              + getLinearLength ?ext (IdentifierExpression ?ie) (linearLengthMap ?st) > 30"
    by (simp add: exampleExternals_def datetimezoneLengths_def mkTokenRange_def
        mkIdentifierExpression_def)
  have quiet: "\<not> precededByMultilineComment (InvokeExpression ?tr ?ow ?cw datetimezoneArgs) ?st"
    by (simp add: precededByMultilineComment_def exampleState_def)
  have key: "hash ?tr = ''InvokeExpression:1,17''"
    by (simp add: mkTokenRange_def)
  have empty: "result ?st = Map.empty"
    by (simp add: exampleState_def)
  from excluded_constructor_call [OF args parent bare name long] quiet
  show ?thesis
    unfolding shape by (simp add: key empty)
qed

text \<open>
  C2 as stated fails: the same call, preceded by a comment block with a line break. All
  conditions hold (eight arguments, the parent with the one recursive expression, the
  bare head \<^verbatim>\<open>#datetimezone\<close>, combined length 40), and the committed flag is true.
\<close>

theorem excluded_constructor_call_counterexample:
  "datetimezoneInvoke =
     InvokeExpression (mkTokenRange ''InvokeExpression:1,17'')
       (mkTerminal ''Constant:1'' ''('') (mkTerminal ''Constant:17'' '')'') datetimezoneArgs
   \<and> length datetimezoneArgs = 8
   \<and> maybeGetParent datetimezoneInvoke
       (parentMap (exampleState [] [(''InvokeExpression:1,17'', True)]
                     [(''InvokeExpression:1,17'', datetimezoneCall)]))
     = Some (RecursivePrimaryExpression (mkTokenRange ''RecursivePrimaryExpression:0,17'')
               (IdentifierExpression (mkIdentifierExpression ''0,0'' ''#datetimezone''))
               [datetimezoneInvoke])
   \<and> maybeInclusiveConstant (mkIdentifierExpression ''0,0'' ''#datetimezone'') = None
   \<and> literal (identifier (mkIdentifierExpression ''0,0'' ''#datetimezone'')) = ''#datetimezone''
   \<and> getLinearLength (exampleExternals datetimezoneLengths) datetimezoneInvoke Map.empty
       + getLinearLength (exampleExternals datetimezoneLengths)
           (IdentifierExpression (mkIdentifierExpression ''0,0'' ''#datetimezone'')) Map.empty
     = 40
   \<and> visitNode (exampleExternals datetimezoneLengths) datetimezoneInvoke
       (exampleState [] [(''InvokeExpression:1,17'', True)]
          [(''InvokeExpression:1,17'', datetimezoneCall)])
     = Inr ((exampleState [] [(''InvokeExpression:1,17'', True)]
               [(''InvokeExpression:1,17'', datetimezoneCall)])
              \<lparr>result := [''InvokeExpression:1,17'' \<mapsto> True]\<rparr>)"
  by (simp add: visitNode_def setIsMultilineWithCommentCheck_def setIsMultiline_def
      precededByMultilineComment_def maybeGetParent_def
      maybeGetInvokeExpressionIdentifier_def InvokeExpressionLinearLengthThreshold_def
      InvokeExpressionIdentifierLinearLengthExclusions_def
      datetimezoneInvoke_def datetimezoneArgs_def datetimezoneCall_def datetimezoneLengths_def
      example_defs)

text \<open>
  C6. For every call with more than one argument whose parent is absent from the parent
  index, or is not a recursive primary expression, \<^verbatim>\<open>visitNode\<close> throws the invariant
  error of the invoke rule. Its details hold the call and the parent that was found (or
  \<open>None\<close>). \<^verbatim>\<open>visitNode\<close> ends with the error: nothing is written to the table of flags,
  and nothing in the pass catches the error.
\<close>

theorem invoke_without_parent:
  assumes "length content > 1"
    and "\<forall>ptr head recursiveExpressions.
           maybeGetParent (InvokeExpression tr ow cw content) (parentMap st)
             \<noteq> Some (RecursivePrimaryExpression ptr head recursiveExpressions)"
  shows "visitNode ext (InvokeExpression tr ow cw content) st =
           Inl (InvariantError
                  ''InvokeExpression must have RecursivePrimaryExpression as a parent''
                  (NodeAndMaybeParent (InvokeExpression tr ow cw content)
                     (maybeGetParent (InvokeExpression tr ow cw content) (parentMap st))))"
proof (cases "maybeGetParent (InvokeExpression tr ow cw content) (parentMap st)")
  case None
  with assms(1) show ?thesis
    by (simp add: visitNode_def)
next
  case (Some p)
  with assms(2) have "\<forall>ptr head recursiveExpressions.
      p \<noteq> RecursivePrimaryExpression ptr head recursiveExpressions"
    by simp
  with Some assms(1) show ?thesis
    by (cases p) (simp_all add: visitNode_def)
qed

text \<open>
  The theorem at the two-argument call of the example above, once with an empty parent
  index and once with a parent index that gives a list as its parent.
\<close>

theorem invoke_without_parent_witness:
  "visitNode (exampleExternals curriedLengths) curriedSecondInvoke (exampleState [] [] [])
     = Inl (InvariantError
              ''InvokeExpression must have RecursivePrimaryExpression as a parent''
              (NodeAndMaybeParent curriedSecondInvoke None))
   \<and> visitNode (exampleExternals curriedLengths) curriedSecondInvoke
       (exampleState [] [] [(''InvokeExpression:4,8'', singletonList)])
     = Inl (InvariantError
              ''InvokeExpression must have RecursivePrimaryExpression as a parent''
              (NodeAndMaybeParent curriedSecondInvoke (Some singletonList)))"
proof -
  let ?tr = "mkTokenRange ''InvokeExpression:4,8''"
  let ?ow = "mkTerminal ''Constant:4'' ''(''"
  let ?cw = "mkTerminal ''Constant:8'' '')''"
  let ?content =
    "[mkCsv ''5''
        (IdentifierExpression (mkIdentifierExpression ''5,5'' ''aVeryLongArgumentNameOne''))
        True,
      mkCsv ''7''
        (IdentifierExpression (mkIdentifierExpression ''7,7'' ''aVeryLongArgumentNameTwo''))
        False]"
  let ?absent = "exampleState [] [] []"
  let ?wrong = "exampleState [] [] [(''InvokeExpression:4,8'', singletonList)]"
  have shape: "curriedSecondInvoke = InvokeExpression ?tr ?ow ?cw ?content"
    by (simp add: curriedSecondInvoke_def)
  have args: "length ?content > 1"
    by simp
  have absent: "maybeGetParent (InvokeExpression ?tr ?ow ?cw ?content) (parentMap ?absent) = None"
    by (simp add: maybeGetParent_def exampleState_def)
  have wrong: "maybeGetParent (InvokeExpression ?tr ?ow ?cw ?content) (parentMap ?wrong)
                 = Some singletonList"
    by (simp add: maybeGetParent_def exampleState_def mkTokenRange_def)
  have kind: "\<forall>ptr head recursiveExpressions.
      singletonList \<noteq> RecursivePrimaryExpression ptr head recursiveExpressions"
    by (simp add: singletonList_def)
  from invoke_without_parent [OF args, of ?tr ?ow ?cw ?absent "exampleExternals curriedLengths"]
    invoke_without_parent [OF args, of ?tr ?ow ?cw ?wrong "exampleExternals curriedLengths"]
    absent wrong kind
  show ?thesis
    unfolding shape by simp
qed

text \<open>The only error the switch can end with is the error of the invoke rule.\<close>

lemma visitNodeSwitch_error:
  assumes "visitNodeSwitch ext n st = Inl e"
  shows "e = InvariantError
               ''InvokeExpression must have RecursivePrimaryExpression as a parent''
               (NodeAndMaybeParent n (maybeGetParent n (parentMap st)))"
proof (cases n)
  case (InvokeExpression tr ow cw content)
  show ?thesis
  proof (cases "maybeGetParent n (parentMap st)")
    case None
    with assms InvokeExpression show ?thesis
      by (simp add: Let_def split: if_splits)
  next
    case (Some p)
    show ?thesis
    proof (cases "\<exists>ptr head recursiveExpressions.
        p = RecursivePrimaryExpression ptr head recursiveExpressions")
      case True
      then obtain ptr head recursiveExpressions
        where p: "p = RecursivePrimaryExpression ptr head recursiveExpressions"
        by blast
      with Some InvokeExpression
      have "\<exists>r. maybeGetInvokeExpressionIdentifier n st = Inr r"
        by (cases head) (simp_all add: maybeGetInvokeExpressionIdentifier_def)
      with assms InvokeExpression Some p show ?thesis
        by (auto simp: Let_def split: if_splits option.splits)
    next
      case False
      with assms InvokeExpression Some show ?thesis
        by (cases p) (simp_all add: Let_def split: if_splits)
    qed
  qed
next
  case (CsvNode c)
  with assms show ?thesis by (cases c) simp
next
  case (UnaryExpressionHelperNode h)
  with assms show ?thesis by (cases h) simp
qed (use assms in \<open>simp_all add: Let_def split: if_splits\<close>)

text \<open>
  C10. \<^verbatim>\<open>maybeGetInvokeExpressionIdentifier\<close> returns normally (an identifier expression or
  nothing) whenever the parent of its node is a recursive primary expression, which is
  what the invoke rule has checked before it calls the function (first conjunct). So the
  error of that function never leaves \<^verbatim>\<open>visitNode\<close>: whatever the node, an error of
  \<^verbatim>\<open>visitNode\<close> is the error of the invoke rule itself (second conjunct).
\<close>

theorem identifier_lookup_never_throws:
  "(maybeGetParent n (parentMap st) =
      Some (RecursivePrimaryExpression ptr head recursiveExpressions)
    \<longrightarrow> (\<exists>r. maybeGetInvokeExpressionIdentifier n st = Inr r))
   \<and> (visitNode ext m st = Inl e
      \<longrightarrow> e = InvariantError
                 ''InvokeExpression must have RecursivePrimaryExpression as a parent''
                 (NodeAndMaybeParent m (maybeGetParent m (parentMap st))))"
proof -
  have lookup: "\<exists>r. maybeGetInvokeExpressionIdentifier n st = Inr r"
    if "maybeGetParent n (parentMap st) =
          Some (RecursivePrimaryExpression ptr head recursiveExpressions)"
    using that by (cases head) (simp_all add: maybeGetInvokeExpressionIdentifier_def)
  have visit: "e = InvariantError
                 ''InvokeExpression must have RecursivePrimaryExpression as a parent''
                 (NodeAndMaybeParent m (maybeGetParent m (parentMap st)))"
    if "visitNode ext m st = Inl e"
  proof -
    from that have "visitNodeSwitch ext m st = Inl e"
      by (simp add: visitNode_def split: sum.splits)
    then show ?thesis
      by (rule visitNodeSwitch_error)
  qed
  from lookup visit show ?thesis
    by blast
qed

text \<open>
  The theorem at the two calls of the examples, whose parents are recursive primary
  expressions, and at the second of them under an empty parent index, where
  \<^verbatim>\<open>visitNode\<close> does end with an error.
\<close>

theorem identifier_lookup_never_throws_witness:
  "(\<exists>r. maybeGetInvokeExpressionIdentifier datetimezoneInvoke
           (exampleState [] [] [(''InvokeExpression:1,17'', datetimezoneCall)]) = Inr r)
   \<and> (\<exists>r. maybeGetInvokeExpressionIdentifier curriedSecondInvoke
           (exampleState [] []
              [(''InvokeExpression:1,3'', curriedCall), (''InvokeExpression:4,8'', curriedCall)])
         = Inr r)
   \<and> (\<exists>e. visitNode (exampleExternals curriedLengths) curriedSecondInvoke
              (exampleState [] [] []) = Inl e
          \<and> e = InvariantError
                  ''InvokeExpression must have RecursivePrimaryExpression as a parent''
                  (NodeAndMaybeParent curriedSecondInvoke None))"
proof -
  have first: "maybeGetParent datetimezoneInvoke
      (parentMap (exampleState [] [] [(''InvokeExpression:1,17'', datetimezoneCall)]))
    = Some (RecursivePrimaryExpression (mkTokenRange ''RecursivePrimaryExpression:0,17'')
              (IdentifierExpression (mkIdentifierExpression ''0,0'' ''#datetimezone''))
              [datetimezoneInvoke])"
    by (simp add: maybeGetParent_def exampleState_def mkTokenRange_def datetimezoneCall_def
        datetimezoneInvoke_def)
  have second: "maybeGetParent curriedSecondInvoke
      (parentMap (exampleState [] []
         [(''InvokeExpression:1,3'', curriedCall), (''InvokeExpression:4,8'', curriedCall)]))
    = Some (RecursivePrimaryExpression (mkTokenRange ''RecursivePrimaryExpression:0,8'')
              (IdentifierExpression (mkIdentifierExpression ''0,0'' ''makeAdder''))
              [curriedFirstInvoke, curriedSecondInvoke])"
    by (simp add: maybeGetParent_def exampleState_def mkTokenRange_def curriedCall_def
        curriedSecondInvoke_def)
  have thrown: "\<exists>e. visitNode (exampleExternals curriedLengths) curriedSecondInvoke
                      (exampleState [] [] []) = Inl e"
    by (simp add: visitNode_def maybeGetParent_def curriedSecondInvoke_def exampleState_def)
  have parent: "maybeGetParent curriedSecondInvoke (parentMap (exampleState [] [] [])) = None"
    by (simp add: maybeGetParent_def exampleState_def)
  from identifier_lookup_never_throws [of datetimezoneInvoke
      "exampleState [] [] [(''InvokeExpression:1,17'', datetimezoneCall)]"] first
    identifier_lookup_never_throws [of curriedSecondInvoke
      "exampleState [] []
         [(''InvokeExpression:1,3'', curriedCall), (''InvokeExpression:4,8'', curriedCall)]"]
    second
    identifier_lookup_never_throws [where ext = "exampleExternals curriedLengths"
      and m = curriedSecondInvoke and st = "exampleState [] [] []"] thrown parent
  show ?thesis
    by (metis (no_types, lifting))
qed

text \<open>
  For every call with several arguments below a recursive primary expression whose
  combined length exceeds 30, the value the rule computes is true exactly when the
  parent has one recursive expression, the head is an identifier expression, and that
  identifier carries an \<^verbatim>\<open>@\<close> or is none of the four excluded identifiers. A long call whose
  head does not resolve to an identifier gets false.
\<close>

theorem long_call_flag:
  assumes "length content > 1"
    and "maybeGetParent (InvokeExpression tr ow cw content) (parentMap st) =
           Some (RecursivePrimaryExpression ptr head recursiveExpressions)"
    and "getLinearLength ext (InvokeExpression tr ow cw content) (linearLengthMap st)
         + getLinearLength ext head (linearLengthMap st) > 30"
  shows "visitNodeSwitch ext (InvokeExpression tr ow cw content) st =
           Inr (\<exists>ie chained. head = IdentifierExpression ie \<and> recursiveExpressions = [chained]
                  \<and> (maybeInclusiveConstant ie \<noteq> None
                      \<or> literal (identifier ie)
                          \<notin> set [''#datetime'', ''#datetimezone'', ''#duration'', ''#time'']))"
proof (cases "\<exists>ie chained. head = IdentifierExpression ie \<and> recursiveExpressions = [chained]")
  case True
  then obtain ie chained
    where resolved: "head = IdentifierExpression ie" "recursiveExpressions = [chained]"
    by blast
  with assms(2)
  have "maybeGetInvokeExpressionIdentifier (InvokeExpression tr ow cw content) st = Inr (Some ie)"
    by (simp add: maybeGetInvokeExpressionIdentifier_def)
  with invoke_switch_long [OF assms] resolved show ?thesis
    by (simp add: InvokeExpressionIdentifierLinearLengthExclusions_def
        del: visitNodeSwitch.simps)
next
  case False
  have "maybeGetInvokeExpressionIdentifier (InvokeExpression tr ow cw content) st = Inr None"
  proof (cases "length recursiveExpressions = 1")
    case True
    then obtain chained where "recursiveExpressions = [chained]"
      by (cases recursiveExpressions) simp_all
    with False have "\<forall>ie. head \<noteq> IdentifierExpression ie"
      by simp
    with assms(2) True show ?thesis
      by (cases head) (simp_all add: maybeGetInvokeExpressionIdentifier_def)
  next
    case False
    with assms(2) show ?thesis
      by (simp add: maybeGetInvokeExpressionIdentifier_def)
  qed
  with invoke_switch_long [OF assms]
  have rule: "visitNodeSwitch ext (InvokeExpression tr ow cw content) st = Inr False"
    by (simp del: visitNodeSwitch.simps)
  from False
  have "(\<exists>ie chained. head = IdentifierExpression ie \<and> recursiveExpressions = [chained]
           \<and> (maybeInclusiveConstant ie \<noteq> None
               \<or> literal (identifier ie)
                   \<notin> set [''#datetime'', ''#datetimezone'', ''#duration'', ''#time''])) = False"
    by blast
  with rule show ?thesis
    by (simp only:)
qed

text \<open>
  The theorem at \<^verbatim>\<open>foo(aVeryLongArgumentNameOne, aVeryLongArgumentNameTwo, more)\<close>, where
  the rule gives true, and at the second call of
  \<^verbatim>\<open>makeAdder(1)(aVeryLongArgumentNameOne, aVeryLongArgumentNameTwo)\<close>, where it gives
  false.
\<close>

theorem long_call_flag_witness:
  "visitNodeSwitch (exampleExternals fooLengths) fooInvoke
     (exampleState [] [] [(''InvokeExpression:1,7'', fooCall)]) = Inr True
   \<and> visitNodeSwitch (exampleExternals curriedLengths) curriedSecondInvoke
       (exampleState [] []
          [(''InvokeExpression:1,3'', curriedCall), (''InvokeExpression:4,8'', curriedCall)])
     = Inr False"
proof -
  let ?st = "exampleState [] [] [(''InvokeExpression:1,7'', fooCall)]"
  let ?ext = "exampleExternals fooLengths"
  let ?tr = "mkTokenRange ''InvokeExpression:1,7''"
  let ?ow = "mkTerminal ''Constant:1'' ''(''"
  let ?cw = "mkTerminal ''Constant:7'' '')''"
  let ?content =
    "[mkCsv ''2''
        (IdentifierExpression (mkIdentifierExpression ''2,2'' ''aVeryLongArgumentNameOne''))
        True,
      mkCsv ''4''
        (IdentifierExpression (mkIdentifierExpression ''4,4'' ''aVeryLongArgumentNameTwo''))
        True,
      mkCsv ''6'' (IdentifierExpression (mkIdentifierExpression ''6,6'' ''more'')) False]"
  let ?head = "IdentifierExpression (mkIdentifierExpression ''0,0'' ''foo'')"
  have shape: "fooInvoke = InvokeExpression ?tr ?ow ?cw ?content"
    by (simp add: fooInvoke_def)
  have args: "length ?content > 1"
    by simp
  have parent: "maybeGetParent (InvokeExpression ?tr ?ow ?cw ?content) (parentMap ?st) =
      Some (RecursivePrimaryExpression (mkTokenRange ''RecursivePrimaryExpression:0,7'')
              ?head [fooInvoke])"
    by (simp add: maybeGetParent_def exampleState_def mkTokenRange_def fooCall_def)
  have long: "getLinearLength ?ext (InvokeExpression ?tr ?ow ?cw ?content) (linearLengthMap ?st)
              + getLinearLength ?ext ?head (linearLengthMap ?st) > 30"
    by (simp add: exampleExternals_def fooLengths_def mkTokenRange_def
        mkIdentifierExpression_def)
  have name: "literal (identifier (mkIdentifierExpression ''0,0'' ''foo'')) = ''foo''"
    by (simp add: mkIdentifierExpression_def mkTerminal_def)
  let ?st' = "exampleState [] []
                [(''InvokeExpression:1,3'', curriedCall), (''InvokeExpression:4,8'', curriedCall)]"
  let ?ext' = "exampleExternals curriedLengths"
  let ?tr' = "mkTokenRange ''InvokeExpression:4,8''"
  let ?cw' = "mkTerminal ''Constant:8'' '')''"
  let ?ow' = "mkTerminal ''Constant:4'' ''(''"
  let ?content' =
    "[mkCsv ''5''
        (IdentifierExpression (mkIdentifierExpression ''5,5'' ''aVeryLongArgumentNameOne''))
        True,
      mkCsv ''7''
        (IdentifierExpression (mkIdentifierExpression ''7,7'' ''aVeryLongArgumentNameTwo''))
        False]"
  let ?head' = "IdentifierExpression (mkIdentifierExpression ''0,0'' ''makeAdder'')"
  have shape': "curriedSecondInvoke = InvokeExpression ?tr' ?ow' ?cw' ?content'"
    by (simp add: curriedSecondInvoke_def)
  have args': "length ?content' > 1"
    by simp
  have parent': "maybeGetParent (InvokeExpression ?tr' ?ow' ?cw' ?content') (parentMap ?st') =
      Some (RecursivePrimaryExpression (mkTokenRange ''RecursivePrimaryExpression:0,8'')
              ?head' [curriedFirstInvoke, curriedSecondInvoke])"
    by (simp add: maybeGetParent_def exampleState_def mkTokenRange_def curriedCall_def)
  have long': "getLinearLength ?ext' (InvokeExpression ?tr' ?ow' ?cw' ?content')
                 (linearLengthMap ?st')
               + getLinearLength ?ext' ?head' (linearLengthMap ?st') > 30"
    by (simp add: exampleExternals_def curriedLengths_def mkTokenRange_def
        mkIdentifierExpression_def)
  from long_call_flag [OF args parent long] long_call_flag [OF args' parent' long'] name
  show ?thesis
    unfolding shape shape' by (simp del: visitNodeSwitch.simps)
qed

text \<open>
  For every call with at most one argument, and for every call whose length plus the
  length of the head of its parent is at most 30, the value the rule computes is true
  exactly when one of the wrappers or one of the arguments already has a true flag.
\<close>

theorem short_call_flag:
  assumes "length content \<le> 1
           \<or> (maybeGetParent (InvokeExpression tr ow cw content) (parentMap st) =
                Some (RecursivePrimaryExpression ptr head recursiveExpressions)
              \<and> getLinearLength ext (InvokeExpression tr ow cw content) (linearLengthMap st)
                  + getLinearLength ext head (linearLengthMap st) \<le> 30)"
  shows "visitNodeSwitch ext (InvokeExpression tr ow cw content) st =
           Inr (getIsMultiline (Constant ow) (result st)
                \<or> getIsMultiline (Constant cw) (result st)
                \<or> (\<exists>arg \<in> set content. getIsMultiline (CsvNode arg) (result st)))"
  using assms
  by (auto simp: Let_def isAnyMultiline_wrapped InvokeExpressionLinearLengthThreshold_def
      simp del: isAnyMultiline.simps)

text \<open>
  The theorem at \<^verbatim>\<open>foo(if true then 1 else 0)\<close>: the conditional is visited first, then
  the argument that holds it, then the call; the flag committed for the call is true.
\<close>

theorem short_call_flag_witness:
  "(case visitNode (exampleExternals []) conditional (exampleState [] [] []) of
      Inl e \<Rightarrow> None
    | Inr st1 \<Rightarrow>
        (case visitNode (exampleExternals []) (CsvNode (mkCsv ''2,7'' conditional False)) st1 of
           Inl e \<Rightarrow> None
         | Inr st2 \<Rightarrow>
             (case visitNode (exampleExternals []) conditionalInvoke st2 of
                Inl e \<Rightarrow> None
              | Inr st3 \<Rightarrow> result st3 ''InvokeExpression:1,8'')))
   = Some True"
proof -
  let ?ext = "exampleExternals []"
  let ?st0 = "exampleState [] [] []"
  let ?st1 = "?st0\<lparr>result := [''IfExpression:2,7'' \<mapsto> True]\<rparr>"
  let ?st2 = "?st0\<lparr>result := [''IfExpression:2,7'' \<mapsto> True, ''Csv:2,7'' \<mapsto> True]\<rparr>"
  let ?tr = "mkTokenRange ''InvokeExpression:1,8''"
  let ?ow = "mkTerminal ''Constant:1'' ''(''"
  let ?cw = "mkTerminal ''Constant:8'' '')''"
  let ?content = "[mkCsv ''2,7'' conditional False]"
  have first: "visitNode ?ext conditional ?st0 = Inr ?st1"
    by (simp add: visitNode_def setIsMultilineWithCommentCheck_def setIsMultiline_def
        precededByMultilineComment_def conditional_def exampleState_def mkTokenRange_def)
  have second: "visitNode ?ext (CsvNode (mkCsv ''2,7'' conditional False)) ?st1 = Inr ?st2"
    by (simp add: visitNode_def setIsMultilineWithCommentCheck_def setIsMultiline_def
        precededByMultilineComment_def getIsMultiline_def conditional_def exampleState_def
        mkCsv_def mkTokenRange_def)
  have shape: "conditionalInvoke = InvokeExpression ?tr ?ow ?cw ?content"
    by (simp add: conditionalInvoke_def)
  have single: "length ?content \<le> 1
      \<or> (maybeGetParent (InvokeExpression ?tr ?ow ?cw ?content) (parentMap ?st2) =
           Some (RecursivePrimaryExpression (mkTokenRange ''RecursivePrimaryExpression:0,8'')
                   (IdentifierExpression (mkIdentifierExpression ''0,0'' ''foo''))
                   [conditionalInvoke])
          \<and> getLinearLength ?ext (InvokeExpression ?tr ?ow ?cw ?content) (linearLengthMap ?st2)
              + getLinearLength ?ext
                  (IdentifierExpression (mkIdentifierExpression ''0,0'' ''foo''))
                  (linearLengthMap ?st2) \<le> 30)"
    by simp
  have argument: "getIsMultiline (CsvNode (mkCsv ''2,7'' conditional False)) (result ?st2)"
    by (simp add: getIsMultiline_def mkCsv_def mkTokenRange_def)
  from short_call_flag [OF single] argument
  have "visitNodeSwitch ?ext (InvokeExpression ?tr ?ow ?cw ?content) ?st2 = Inr True"
    by (simp del: visitNodeSwitch.simps)
  from visitNode_commit [OF this]
  have third: "(case visitNode ?ext conditionalInvoke ?st2 of
                  Inl e \<Rightarrow> None
                | Inr st3 \<Rightarrow> result st3 ''InvokeExpression:1,8'') = Some True"
    unfolding shape by (simp add: mkTokenRange_def)
  show ?thesis
    unfolding first second sum.case by (rule third)
qed

subsection \<open>Lists and records\<close>

text \<open>
  C5, as amended. For every list or record (expression or literal), the value the rule
  computes is true exactly when the node has more than one content item, or the open
  wrapper, the close wrapper or a content item already has a true flag, or the payload
  of a content item is itself a list or record. The committed flag is that value, or
  true when a comment block with a line break precedes the node.
\<close>

theorem list_or_record_flag:
  "visitNodeSwitch ext (TListOrRecord k tr ow cw content) st =
     Inr (length content > 1
          \<or> getIsMultiline (Constant ow) (result st)
          \<or> getIsMultiline (Constant cw) (result st)
          \<or> (\<exists>item \<in> set content. getIsMultiline (CsvNode item) (result st))
          \<or> (\<exists>item \<in> set content. isListOrRecord (csvNode item)))
   \<and> visitNode ext (TListOrRecord k tr ow cw content) st =
     Inr (st\<lparr>result := (result st)(hash tr \<mapsto>
            (length content > 1
             \<or> getIsMultiline (Constant ow) (result st)
             \<or> getIsMultiline (Constant cw) (result st)
             \<or> (\<exists>item \<in> set content. getIsMultiline (CsvNode item) (result st))
             \<or> (\<exists>item \<in> set content. isListOrRecord (csvNode item))
             \<or> precededByMultilineComment (TListOrRecord k tr ow cw content) st))\<rparr>)"
proof -
  have rule: "visitNodeSwitch ext (TListOrRecord k tr ow cw content) st =
     Inr (length content > 1
          \<or> getIsMultiline (Constant ow) (result st)
          \<or> getIsMultiline (Constant cw) (result st)
          \<or> (\<exists>item \<in> set content. getIsMultiline (CsvNode item) (result st))
          \<or> (\<exists>item \<in> set content. isListOrRecord (csvNode item)))"
    by (auto simp: Let_def isAnyMultiline_wrapped isAnyListOrRecord_iff
        simp del: isAnyMultiline.simps)
  from visitNode_commit [OF rule] rule show ?thesis
    by simp
qed

text \<open>
  C5 as stated fails: the list \<^verbatim>\<open>{1}\<close> has one content item, neither wrapper nor the
  item has a true flag, the payload is a number, and when a comment block with a line
  break precedes the list the committed flag is true.
\<close>

theorem list_or_record_flag_counterexample:
  "singletonList =
     TListOrRecord ListExpression (mkTokenRange ''ListExpression:0,2'')
       (mkTerminal ''Constant:0'' ''{'') (mkTerminal ''Constant:2'' ''}'')
       [mkCsv ''1'' (mkNumber ''1'' ''1'') False]
   \<and> \<not> getIsMultiline (Constant (mkTerminal ''Constant:0'' ''{''))
         [''LiteralExpression:1'' \<mapsto> False, ''Csv:1'' \<mapsto> False,
          ''Constant:0'' \<mapsto> False, ''Constant:2'' \<mapsto> False]
   \<and> \<not> getIsMultiline (Constant (mkTerminal ''Constant:2'' ''}''))
         [''LiteralExpression:1'' \<mapsto> False, ''Csv:1'' \<mapsto> False,
          ''Constant:0'' \<mapsto> False, ''Constant:2'' \<mapsto> False]
   \<and> \<not> getIsMultiline (CsvNode (mkCsv ''1'' (mkNumber ''1'' ''1'') False))
         [''LiteralExpression:1'' \<mapsto> False, ''Csv:1'' \<mapsto> False,
          ''Constant:0'' \<mapsto> False, ''Constant:2'' \<mapsto> False]
   \<and> \<not> isListOrRecord (csvNode (mkCsv ''1'' (mkNumber ''1'' ''1'') False))
   \<and> (case visitNode (exampleExternals []) singletonList
              (exampleState
                 [(''LiteralExpression:1'', False), (''Csv:1'', False),
                  (''Constant:0'', False), (''Constant:2'', False)]
                 [(''ListExpression:0,2'', True)] []) of
         Inl e \<Rightarrow> None
       | Inr st \<Rightarrow> result st ''ListExpression:0,2'') = Some True"
  by (simp add: visitNode_def setIsMultilineWithCommentCheck_def setIsMultiline_def
      precededByMultilineComment_def getIsMultiline_def singletonList_def example_defs)

subsection \<open>Binary operator chains\<close>

lemma foldl_Suc_length: "foldl (\<lambda>(acc::nat) x. Suc acc) a xs = a + length xs"
  by (induction xs arbitrary: a) auto








text \<open>
  The count of the code: \<^verbatim>\<open>first\<close> contributes its own count, and every element of
  \<^verbatim>\<open>rest\<close> contributes one, whatever its operand is (the element handed to the recursive
  call is the helper, which is no binary operator expression).
\<close>

theorem chain_count_of_the_code:
  "numTBinOpExpressions (TBinOpExpression k tr first rest) =
     numTBinOpExpressions first + length rest"
  by (simp add: foldl_Suc_length)




end
